theory Spec2Isabelle
  imports Main
begin

section \<open>The Bazel MCP server: a model of src/index.ts\<close>

text \<open>
  The server turns a tool call into one run of the Bazel binary and returns what the
  run printed. The model follows the source function by function. What the source takes
  from Node is made explicit:
  \<^item> a child process is the list of events it emits, in the order the event loop
    delivers them (\<open>child_event\<close>);
  \<^item> every call of \<open>spawn\<close> is appended to a list kept in the \<open>world\<close>;
  \<^item> the file system is the function that says what a path names (\<open>filesystem\<close>);
  \<^item> a thrown \<open>Error\<close> is a value of the type \<open>error\<close>, and a promise that
    never settles is \<open>None\<close>.
  The function \<open>log\<close> of the source only writes to the log file and to the console; it
  is taken to succeed and is left out of the model. \<open>spawn\<close> is taken to accept its
  arguments: a child that cannot be started shows as an \<open>error\<close> event.
\<close>

subsection \<open>Template literals\<close>

text \<open>The decimal text that a template literal gives for an integer.\<close>

definition digit_char :: "nat \<Rightarrow> char" where
  "digit_char d = ''0123456789'' ! d"

fun decimal :: "nat \<Rightarrow> string" where
  "decimal n = (if n < 10 then [digit_char n] else decimal (n div 10) @ [digit_char (n mod 10)])"

declare decimal.simps [simp del]

text \<open>
  The exit code that the \<open>close\<close> event carries is a number, or \<open>null\<close> when a signal
  ended the child: \<open>None\<close> here. \<open>code_text\<close> is what \<open>${code}\<close> gives.
\<close>

definition code_text :: "int option \<Rightarrow> string" where
  "code_text code =
     (case code of
        None \<Rightarrow> ''null''
      | Some i \<Rightarrow> if i < 0 then ''-'' @ decimal (nat (- i)) else decimal (nat i))"

subsection \<open>Errors\<close>

text \<open>One constructor for each \<open>new Error(...)\<close> of the source, and one for the error
  object that the \<open>error\<close> event of a child process carries.\<close>

datatype error =
    NoArguments
  | MissingArgument string
  | UnknownTool string
  | CommandFailed "int option" string
  | SpawnError string
  | PathDoesNotExist string
  | NotAWorkspace string

text \<open>The \<open>message\<close> property of each error, as the source's template literals build it.\<close>

fun message :: "error \<Rightarrow> string" where
  "message NoArguments = ''No arguments provided''"
| "message (MissingArgument field) = ''Missing required argument: '' @ field"
| "message (UnknownTool name) = ''Unknown tool: '' @ name"
| "message (CommandFailed code err) =
     ''Bazel command failed with code '' @ code_text code @ '': '' @ err"
| "message (SpawnError m) = m"
| "message (PathDoesNotExist p) = ''Workspace path does not exist: '' @ p"
| "message (NotAWorkspace p) = ''Path does not appear to be a Bazel workspace: '' @ p"

subsection \<open>The client and the processes it starts\<close>

text \<open>The three private fields of class \<open>BazelClient\<close>.\<close>

record BazelClient =
  bazelPath :: string
  workspacePath :: string
  workspaceConfig :: "string option"

text \<open>One call \<open>spawn(file, args, {cwd})\<close>.\<close>

record spawn_call =
  spawn_file :: string
  spawn_args :: "string list"
  spawn_cwd :: string

text \<open>
  What a child process does, as seen by the four handlers that \<open>runBazelCommand\<close>
  installs: a chunk on stdout, a chunk on stderr (each already turned into a string by
  \<open>data.toString()\<close>), \<open>close\<close> with the exit code, and \<open>error\<close> with the message of
  the error object.
\<close>

datatype child_event =
    StdoutData string
  | StderrData string
  | Close "int option"
  | ErrorEvent string

text \<open>
  The callback \<open>onOutput\<close> has the type \<open>(chunk: string) => void\<close>: it gets the text
  of the chunk and nothing else. Whatever it does is a change of a state \<open>'o\<close> of its own.
\<close>

type_synonym 'o callback = "string \<Rightarrow> 'o \<Rightarrow> 'o"

text \<open>
  The state of one call of \<open>runBazelCommand\<close>: the two accumulators, the promise
  (\<open>None\<close> while pending, \<open>Inr\<close> resolved, \<open>Inl\<close> rejected) and the callback's state.
\<close>

record 'o run =
  stdout :: string
  stderr :: string
  promise :: "(error + string \<times> string) option"
  obs :: 'o

text \<open>\<open>resolve\<close> and \<open>reject\<close> settle a promise once; later calls change nothing.\<close>

definition settle :: "error + string \<times> string \<Rightarrow> 'o run \<Rightarrow> 'o run" where
  "settle v r = (case promise r of None \<Rightarrow> r\<lparr>promise := Some v\<rparr> | Some u \<Rightarrow> r)"

text \<open>\<open>if (onOutput) { onOutput(chunk); }\<close>\<close>

definition forward :: "'o callback option \<Rightarrow> string \<Rightarrow> 'o \<Rightarrow> 'o" where
  "forward onOutput chunk s = (case onOutput of None \<Rightarrow> s | Some f \<Rightarrow> f chunk s)"

text \<open>The four event handlers.\<close>

fun on_event :: "'o callback option \<Rightarrow> child_event \<Rightarrow> 'o run \<Rightarrow> 'o run" where
  "on_event onOutput (StdoutData chunk) r =
     r\<lparr>stdout := stdout r @ chunk, obs := forward onOutput chunk (obs r)\<rparr>"
| "on_event onOutput (StderrData chunk) r =
     r\<lparr>stderr := stderr r @ chunk, obs := forward onOutput chunk (obs r)\<rparr>"
| "on_event onOutput (Close code) r =
     (if code = Some 0 then settle (Inr (stdout r, stderr r)) r
      else settle (Inl (CommandFailed code (stderr r))) r)"
| "on_event onOutput (ErrorEvent m) r = settle (Inl (SpawnError m)) r"

text \<open>The event loop delivers the child's events one after the other.\<close>

fun deliver :: "'o callback option \<Rightarrow> child_event list \<Rightarrow> 'o run \<Rightarrow> 'o run" where
  "deliver onOutput [] r = r"
| "deliver onOutput (e # es) r = deliver onOutput es (on_event onOutput e r)"

text \<open>What lies outside the client: the processes started so far, oldest first, and
  the state of the caller's callback.\<close>

record 'o world =
  spawned :: "spawn_call list"
  seen :: 'o

text \<open>
  \<open>fullArgs\<close>: the subcommand and its arguments, and before them
  \<open>--bazelrc=<workspaceConfig>\<close> when \<open>this.workspaceConfig\<close> is truthy, that is a
  string that is not empty.
\<close>

definition fullArgs :: "BazelClient \<Rightarrow> string \<Rightarrow> string list \<Rightarrow> string list" where
  "fullArgs c command args =
     (case workspaceConfig c of
        None \<Rightarrow> command # args
      | Some cfg \<Rightarrow>
          if cfg = [] then command # args else (''--bazelrc='' @ cfg) # command # args)"

text \<open>
  \<open>runBazelCommand\<close>: one \<open>spawn\<close>, then the events of the child. The value is the
  promise's outcome; \<open>None\<close> when the child emits neither \<open>close\<close> nor \<open>error\<close>.
\<close>

definition runBazelCommand ::
  "BazelClient \<Rightarrow> string \<Rightarrow> string list \<Rightarrow> 'o callback option \<Rightarrow> child_event list \<Rightarrow>
   'o world \<Rightarrow> (error + string \<times> string) option \<times> 'o world" where
  "runBazelCommand c command args onOutput events w =
     (let r = deliver onOutput events
                \<lparr>stdout = [], stderr = [], promise = None, obs = seen w\<rparr>
      in (promise r,
          \<lparr>spawned = spawned w @
             [\<lparr>spawn_file = bazelPath c, spawn_args = fullArgs c command args,
               spawn_cwd = workspacePath c\<rparr>],
           seen = obs r\<rparr>))"

text \<open>
  \<open>const {stdout, stderr} = await p; return f(stdout, stderr)\<close>: a rejection of \<open>p\<close>
  is the rejection of the caller, and a pending \<open>p\<close> leaves the caller pending.
\<close>

definition await ::
  "(error + string \<times> string) option \<times> 'o world \<Rightarrow> (string \<Rightarrow> string \<Rightarrow> string) \<Rightarrow>
   (error + string) option \<times> 'o world" where
  "await p f =
     (case fst p of
        None \<Rightarrow> (None, snd p)
      | Some (Inl e) \<Rightarrow> (Some (Inl e), snd p)
      | Some (Inr (out, err)) \<Rightarrow> (Some (Inr (f out err)), snd p))"

text \<open>The template literal \<open>`${stdout}\n${stderr}`\<close>.\<close>

definition joined :: "string \<Rightarrow> string \<Rightarrow> string" where
  "joined out err = out @ [CHR 0x0A] @ err"

text \<open>\<open>stdout || stderr\<close> on strings: the left one unless it is empty.\<close>

definition or_else :: "string \<Rightarrow> string \<Rightarrow> string" where
  "or_else out err = (if out = [] then err else out)"

subsection \<open>The operations of the client\<close>

definition buildTargets ::
  "BazelClient \<Rightarrow> string list \<Rightarrow> 'o callback option \<Rightarrow> child_event list \<Rightarrow> 'o world \<Rightarrow>
   (error + string) option \<times> 'o world" where
  "buildTargets c targets onOutput events w =
     await (runBazelCommand c ''build'' targets onOutput events w) joined"

definition queryTarget ::
  "BazelClient \<Rightarrow> string \<Rightarrow> 'o callback option \<Rightarrow> child_event list \<Rightarrow> 'o world \<Rightarrow>
   (error + string) option \<times> 'o world" where
  "queryTarget c pat onOutput events w =
     await (runBazelCommand c ''query'' [pat] onOutput events w) or_else"

definition testTargets ::
  "BazelClient \<Rightarrow> string list \<Rightarrow> 'o callback option \<Rightarrow> child_event list \<Rightarrow> 'o world \<Rightarrow>
   (error + string) option \<times> 'o world" where
  "testTargets c targets onOutput events w =
     await (runBazelCommand c ''test'' targets onOutput events w) joined"

definition listTargets ::
  "BazelClient \<Rightarrow> string \<Rightarrow> 'o callback option \<Rightarrow> child_event list \<Rightarrow> 'o world \<Rightarrow>
   (error + string) option \<times> 'o world" where
  "listTargets c p onOutput events w =
     (let queryPattern = p @ ''/...''
      in await (runBazelCommand c ''query'' [queryPattern] onOutput events w)
           (\<lambda>out err. out))"

text \<open>\<open>targets\<close> is optional: \<open>None\<close> is \<open>undefined\<close>.\<close>

definition fetchDependencies ::
  "BazelClient \<Rightarrow> string list option \<Rightarrow> 'o callback option \<Rightarrow> child_event list \<Rightarrow>
   'o world \<Rightarrow> (error + string) option \<times> 'o world" where
  "fetchDependencies c targets onOutput events w =
     (let args = (case targets of
                    None \<Rightarrow> [''fetch''] @ [''//...'']
                  | Some ts \<Rightarrow>
                      if length ts > 0 then [''fetch''] @ ts else [''fetch''] @ [''//...''])
      in await (runBazelCommand c ''build'' args onOutput events w) joined)"

subsection \<open>The file system\<close>

text \<open>
  What a path names: nothing, a regular file or a directory. \<open>fs.existsSync\<close> is true
  for both kinds of entry; the source never asks which kind it is.
\<close>

datatype node = RegularFile | Directory

type_synonym filesystem = "string \<Rightarrow> node option"

definition existsSync :: "filesystem \<Rightarrow> string \<Rightarrow> bool" where
  "existsSync fs p = (case fs p of None \<Rightarrow> False | Some entry \<Rightarrow> True)"

definition isDirectory :: "filesystem \<Rightarrow> string \<Rightarrow> bool" where
  "isDirectory fs p = (fs p = Some Directory)"

text \<open>
  \<open>path.join\<close> belongs to Node, not to the repository. This is its POSIX form for two
  arguments: the arguments that are not empty are joined with a slash and the result is
  normalised (empty and \<open>.\<close> segments dropped, \<open>..\<close> resolved, a trailing slash kept).
\<close>

fun split_slash :: "string \<Rightarrow> string \<Rightarrow> string list" where
  "split_slash seg [] = [seg]"
| "split_slash seg (ch # rest) =
     (if ch = CHR ''/'' then seg # split_slash [] rest else split_slash (seg @ [ch]) rest)"

fun normalizeString :: "bool \<Rightarrow> string list \<Rightarrow> string list \<Rightarrow> string list" where
  "normalizeString allowAboveRoot res [] = rev res"
| "normalizeString allowAboveRoot res (seg # segs) =
     (if seg = [] then normalizeString allowAboveRoot res segs
      else if seg = ''.'' then normalizeString allowAboveRoot res segs
      else if seg = ''..'' then
        (case res of
           [] \<Rightarrow> normalizeString allowAboveRoot (if allowAboveRoot then [seg] else []) segs
         | lastSeg # below \<Rightarrow>
             if lastSeg = ''..''
             then normalizeString allowAboveRoot (if allowAboveRoot then seg # res else res) segs
             else normalizeString allowAboveRoot below segs)
      else normalizeString allowAboveRoot (seg # res) segs)"

fun slash_joined :: "string list \<Rightarrow> string" where
  "slash_joined [] = []"
| "slash_joined [seg] = seg"
| "slash_joined (seg # segs) = seg @ ''/'' @ slash_joined segs"

definition normalize :: "string \<Rightarrow> string" where
  "normalize p =
     (if p = [] then ''.''
      else
        let isAbsolute = (hd p = CHR ''/'');
            trailingSeparator = (last p = CHR ''/'');
            body = slash_joined (normalizeString (\<not> isAbsolute) [] (split_slash [] p))
        in if body = [] then (if isAbsolute then ''/'' else if trailingSeparator then ''./'' else ''.'')
           else (if isAbsolute then ''/'' else []) @ body
                @ (if trailingSeparator then ''/'' else []))"

definition path_join :: "string \<Rightarrow> string \<Rightarrow> string" where
  "path_join a b =
     (if a = [] then (if b = [] then ''.'' else normalize b)
      else if b = [] then normalize a
      else normalize (a @ ''/'' @ b))"

subsection \<open>Changing the workspace\<close>

definition isWorkspace :: "filesystem \<Rightarrow> string \<Rightarrow> bool" where
  "isWorkspace fs newPath =
     (existsSync fs (path_join newPath ''WORKSPACE'') \<or>
      existsSync fs (path_join newPath ''WORKSPACE.bazel'') \<or>
      existsSync fs (path_join newPath ''MODULE.bazel''))"

text \<open>
  \<open>setWorkspacePath\<close>: a throw is \<open>Inl\<close> and leaves the client as it was; the normal
  return is the confirmation text together with the client after the assignment.
\<close>

definition setWorkspacePath ::
  "filesystem \<Rightarrow> BazelClient \<Rightarrow> string \<Rightarrow> error + string \<times> BazelClient" where
  "setWorkspacePath fs c newPath =
     (if existsSync fs newPath then
        (if isWorkspace fs newPath then
           (let oldPath = workspacePath c
            in Inr (''Workspace path updated from '' @ oldPath @ '' to '' @ newPath,
                    c\<lparr>workspacePath := newPath\<rparr>))
         else Inl (NotAWorkspace newPath))
      else Inl (PathDoesNotExist newPath))"

subsection \<open>The request handlers\<close>

text \<open>
  The names of the six tools that the \<open>ListToolsRequestSchema\<close> handler returns, in
  its order: the \<open>name\<close> fields of \<open>buildTargetTool\<close> to \<open>setWorkspacePathTool\<close>.
\<close>

definition listed_tool_names :: "string list" where
  "listed_tool_names =
     [''bazel_build_target'', ''bazel_query_target'', ''bazel_test_target'',
      ''bazel_list_targets'', ''bazel_fetch_dependencies'', ''bazel_set_workspace_path'']"

text \<open>
  \<open>request.params.arguments\<close> is a JSON object. The handler casts it to one of the
  \<open>...Args\<close> interfaces and reads \<open>targets\<close>, \<open>pattern\<close> or \<open>path\<close>; a field that
  the object lacks is \<open>None\<close>. \<open>additionalArgs\<close> is the member that the README describes
  for every tool but \<open>bazel_set_workspace_path\<close>; the object may carry it.
\<close>

record tool_arguments =
  targets :: "string list option"
  pattern :: "string option"
  path :: "string option"
  additionalArgs :: "string list option"

text \<open>\<open>request.params\<close>: the name of the tool and the arguments, which may be absent.\<close>

record CallToolRequest =
  name :: string
  arguments :: "tool_arguments option"

text \<open>
  What the handler resolves with: \<open>Content t\<close> is \<open>{content: [{type: "text", text: t}]}\<close>,
  and \<open>ErrorContent m\<close> is the same shape with the text \<open>JSON.stringify({error: m})\<close>.
\<close>

datatype response = Content string | ErrorContent string

text \<open>A \<open>throw\<close> inside the \<open>switch\<close>: nothing has been done to the client or the world.\<close>

definition throw ::
  "error \<Rightarrow> BazelClient \<Rightarrow> 'o world \<Rightarrow> (error + string) option \<times> BazelClient \<times> 'o world" where
  "throw e c w = (Some (Inl e), c, w)"

text \<open>\<open>response = await bazelClient.op(...)\<close>: the client object is the same afterwards.\<close>

definition awaited ::
  "BazelClient \<Rightarrow> (error + string) option \<times> 'o world \<Rightarrow>
   (error + string) option \<times> BazelClient \<times> 'o world" where
  "awaited c p = (fst p, c, snd p)"

text \<open>The \<open>switch\<close> on \<open>request.params.name\<close>. The handler passes no callback.\<close>

definition call_tool ::
  "filesystem \<Rightarrow> string \<Rightarrow> tool_arguments \<Rightarrow> child_event list \<Rightarrow> BazelClient \<Rightarrow> 'o world \<Rightarrow>
   (error + string) option \<times> BazelClient \<times> 'o world" where
  "call_tool fs tool args events c w =
     (if tool = ''build_target'' then
        (case targets args of
           None \<Rightarrow> throw (MissingArgument ''targets'') c w
         | Some ts \<Rightarrow>
             if length ts = 0 then throw (MissingArgument ''targets'') c w
             else awaited c (buildTargets c ts None events w))
      else if tool = ''query_target'' then
        (case pattern args of
           None \<Rightarrow> throw (MissingArgument ''pattern'') c w
         | Some pat \<Rightarrow>
             if pat = [] then throw (MissingArgument ''pattern'') c w
             else awaited c (queryTarget c pat None events w))
      else if tool = ''test_target'' then
        (case targets args of
           None \<Rightarrow> throw (MissingArgument ''targets'') c w
         | Some ts \<Rightarrow>
             if length ts = 0 then throw (MissingArgument ''targets'') c w
             else awaited c (testTargets c ts None events w))
      else if tool = ''list_targets'' then
        (case path args of
           None \<Rightarrow> throw (MissingArgument ''path'') c w
         | Some p \<Rightarrow>
             if p = [] then throw (MissingArgument ''path'') c w
             else awaited c (listTargets c p None events w))
      else if tool = ''fetch_dependencies'' then
        awaited c (fetchDependencies c (targets args) None events w)
      else if tool = ''set_workspace_path'' then
        (case path args of
           None \<Rightarrow> throw (MissingArgument ''path'') c w
         | Some p \<Rightarrow>
             if p = [] then throw (MissingArgument ''path'') c w
             else (case setWorkspacePath fs c p of
                     Inl e \<Rightarrow> throw e c w
                   | Inr (text_out, c') \<Rightarrow> (Some (Inr text_out), c', w)))
      else throw (UnknownTool tool) c w)"

text \<open>
  The \<open>CallToolRequestSchema\<close> handler: the \<open>try\<close> block, whose \<open>catch\<close> turns every
  error into a result. \<open>None\<close>: the handler is still waiting for the child.
\<close>

definition handler ::
  "filesystem \<Rightarrow> CallToolRequest \<Rightarrow> child_event list \<Rightarrow> BazelClient \<Rightarrow> 'o world \<Rightarrow>
   response option \<times> BazelClient \<times> 'o world" where
  "handler fs request events c w =
     (let tried = (case arguments request of
                     None \<Rightarrow> throw NoArguments c w
                   | Some args \<Rightarrow> call_tool fs (name request) args events c w)
      in (case fst tried of
            None \<Rightarrow> None
          | Some (Inl e) \<Rightarrow> Some (ErrorContent (message e))
          | Some (Inr text_out) \<Rightarrow> Some (Content text_out),
          snd tried))"

subsection \<open>Describing a child's output\<close>

text \<open>
  The vocabulary of the properties below: which events are chunks of output, the text a
  list of events puts on each stream, the chunks of both streams in the order of
  arrival, and the effect of calling a callback on a list of chunks in order.
\<close>

fun is_data :: "child_event \<Rightarrow> bool" where
  "is_data (StdoutData chunk) = True"
| "is_data (StderrData chunk) = True"
| "is_data (Close code) = False"
| "is_data (ErrorEvent m) = False"

fun stdout_text :: "child_event list \<Rightarrow> string" where
  "stdout_text [] = []"
| "stdout_text (StdoutData chunk # es) = chunk @ stdout_text es"
| "stdout_text (e # es) = stdout_text es"

fun stderr_text :: "child_event list \<Rightarrow> string" where
  "stderr_text [] = []"
| "stderr_text (StderrData chunk # es) = chunk @ stderr_text es"
| "stderr_text (e # es) = stderr_text es"

fun chunks :: "child_event list \<Rightarrow> string list" where
  "chunks [] = []"
| "chunks (StdoutData chunk # es) = chunk # chunks es"
| "chunks (StderrData chunk # es) = chunk # chunks es"
| "chunks (e # es) = chunks es"

fun calls :: "'o callback \<Rightarrow> string list \<Rightarrow> 'o \<Rightarrow> 'o" where
  "calls f [] s = s"
| "calls f (chunk # rest) s = calls f rest (f chunk s)"

subsection \<open>Concrete inputs\<close>

text \<open>Two clients, without and with a \<open>--workspace_config\<close>; a world in which nothing
  has run yet; a callback that writes down each chunk it is given; and a small file
  system with a workspace, an empty directory and a regular file.\<close>

definition client0 :: BazelClient where
  "client0 = \<lparr>bazelPath = ''bazel'', workspacePath = ''/srv/app'', workspaceConfig = None\<rparr>"

definition client1 :: BazelClient where
  "client1 = \<lparr>bazelPath = ''bazel'', workspacePath = ''/srv/app'',
               workspaceConfig = Some ''/srv/ci.bazelrc''\<rparr>"

definition world0 :: "string list world" where
  "world0 = \<lparr>spawned = [], seen = []\<rparr>"

definition record_chunk :: "string list callback" where
  "record_chunk chunk written = written @ [chunk]"

definition fs0 :: filesystem where
  "fs0 = [''/'' \<mapsto> Directory, ''/srv'' \<mapsto> Directory, ''/srv/app'' \<mapsto> Directory,
          ''/srv/app/MODULE.bazel'' \<mapsto> RegularFile, ''/srv/empty'' \<mapsto> Directory,
          ''/srv/notes.txt'' \<mapsto> RegularFile]"

section \<open>Facts about running a command\<close>

lemma deliver_append: "deliver cb (xs @ ys) r = deliver cb ys (deliver cb xs r)"
  by (induction xs arbitrary: r) simp_all

text \<open>Chunks only fill the accumulators and reach the callback; the promise stays as it is.\<close>

lemma deliver_data:
  "list_all is_data ds \<Longrightarrow>
   deliver cb ds r =
     r\<lparr>stdout := stdout r @ stdout_text ds, stderr := stderr r @ stderr_text ds,
       obs := (case cb of None \<Rightarrow> obs r | Some f \<Rightarrow> calls f (chunks ds) (obs r))\<rparr>"
proof (induction ds arbitrary: r)
  case Nil
  then show ?case by (simp split: option.split)
next
  case (Cons e ds)
  then show ?case by (cases e) (simp_all add: forward_def split: option.split)
qed

lemma on_event_settled: "promise r = Some v \<Longrightarrow> promise (on_event cb e r) = Some v"
  by (cases e) (simp_all add: settle_def)

lemma deliver_settled: "promise r = Some v \<Longrightarrow> promise (deliver cb es r) = Some v"
  by (induction es arbitrary: r) (simp_all add: on_event_settled)

lemma deliver_obs:
  "obs (deliver cb es r) = (case cb of None \<Rightarrow> obs r | Some f \<Rightarrow> calls f (chunks es) (obs r))"
proof (induction es arbitrary: r)
  case Nil
  then show ?case by (simp split: option.split)
next
  case (Cons e es)
  then show ?case by (cases e) (simp_all add: forward_def settle_def split: option.split)
qed

text \<open>The first \<open>close\<close> after chunks alone settles the promise, whatever follows it.\<close>

lemma run_outcome:
  assumes "list_all is_data ds"
  shows "fst (runBazelCommand c command args cb (ds @ Close code # rest) w) =
     Some (if code = Some 0 then Inr (stdout_text ds, stderr_text ds)
           else Inl (CommandFailed code (stderr_text ds)))"
proof -
  let ?r0 = "\<lparr>stdout = [], stderr = [], promise = None, obs = seen w\<rparr>"
  let ?v = "if code = Some 0 then Inr (stdout_text ds, stderr_text ds)
           else Inl (CommandFailed code (stderr_text ds))"
  have "promise (on_event cb (Close code) (deliver cb ds ?r0)) = Some ?v"
    using assms by (simp add: deliver_data settle_def)
  then have "promise (deliver cb (ds @ Close code # rest) ?r0) = Some ?v"
    by (simp add: deliver_append deliver_settled)
  then show ?thesis by (simp add: runBazelCommand_def Let_def)
qed

lemma run_spawned:
  "spawned (snd (runBazelCommand c command args cb events w)) =
     spawned w @ [\<lparr>spawn_file = bazelPath c, spawn_args = fullArgs c command args,
                   spawn_cwd = workspacePath c\<rparr>]"
  by (simp add: runBazelCommand_def Let_def)

lemma run_seen:
  "seen (snd (runBazelCommand c command args cb events w)) =
     (case cb of None \<Rightarrow> seen w | Some f \<Rightarrow> calls f (chunks events) (seen w))"
  by (simp add: runBazelCommand_def Let_def deliver_obs split: option.split)

lemma await_snd: "snd (await p f) = snd p"
  by (simp add: await_def split: option.split sum.split prod.split)

lemma await_resolved:
  "fst p = Some (Inr (out, err)) \<Longrightarrow> fst (await p f) = Some (Inr (f out err))"
  by (simp add: await_def)

section \<open>The claims\<close>

text \<open>
  C8. For every list of targets \<open>T\<close> (the empty list too, which \<open>buildTargets\<close> itself
  does not refuse), \<open>buildTargets\<close> starts exactly one process: the list of started
  processes grows by one call of the Bazel binary in the workspace directory. Its
  argument vector is \<open>build\<close> followed by \<open>T\<close>; when a configuration path is set (a
  string that is not empty), the single flag \<open>--bazelrc=<path>\<close> comes first, before
  the subcommand. When the child prints chunks and then closes with code 0, the result
  is the accumulated stdout, a newline, and the accumulated stderr.
\<close>

theorem buildTargets_one_invocation:
  "(workspaceConfig c = None \<or> workspaceConfig c = Some [] \<longrightarrow>
      spawned (snd (buildTargets c T cb events w)) =
        spawned w @ [\<lparr>spawn_file = bazelPath c, spawn_args = ''build'' # T,
                      spawn_cwd = workspacePath c\<rparr>]) \<and>
   (workspaceConfig c = Some cfg \<and> cfg \<noteq> [] \<longrightarrow>
      spawned (snd (buildTargets c T cb events w)) =
        spawned w @ [\<lparr>spawn_file = bazelPath c,
                      spawn_args = (''--bazelrc='' @ cfg) # ''build'' # T,
                      spawn_cwd = workspacePath c\<rparr>]) \<and>
   (list_all is_data ds \<longrightarrow>
      fst (buildTargets c T cb (ds @ Close (Some 0) # rest) w) =
        Some (Inr (stdout_text ds @ [CHR 0x0A] @ stderr_text ds)))"
proof (intro conjI impI)
  assume "workspaceConfig c = None \<or> workspaceConfig c = Some []"
  then show "spawned (snd (buildTargets c T cb events w)) =
        spawned w @ [\<lparr>spawn_file = bazelPath c, spawn_args = ''build'' # T,
                      spawn_cwd = workspacePath c\<rparr>]"
    by (auto simp: buildTargets_def await_snd run_spawned fullArgs_def)
next
  assume "workspaceConfig c = Some cfg \<and> cfg \<noteq> []"
  then show "spawned (snd (buildTargets c T cb events w)) =
        spawned w @ [\<lparr>spawn_file = bazelPath c,
                      spawn_args = (''--bazelrc='' @ cfg) # ''build'' # T,
                      spawn_cwd = workspacePath c\<rparr>]"
    by (simp add: buildTargets_def await_snd run_spawned fullArgs_def)
next
  assume "list_all is_data ds"
  then show "fst (buildTargets c T cb (ds @ Close (Some 0) # rest) w) =
        Some (Inr (stdout_text ds @ [CHR 0x0A] @ stderr_text ds))"
    by (simp add: buildTargets_def await_resolved run_outcome joined_def)
qed

theorem buildTargets_one_invocation_witness:
  "spawned (snd (buildTargets client1 [''//app:main''] (Some record_chunk)
                   [StdoutData ''ok'', Close (Some 0)] world0)) =
     [\<lparr>spawn_file = ''bazel'',
       spawn_args = [''--bazelrc=/srv/ci.bazelrc'', ''build'', ''//app:main''],
       spawn_cwd = ''/srv/app''\<rparr>] \<and>
   spawned (snd (buildTargets client0 [''//app:main''] (Some record_chunk)
                   [StdoutData ''ok'', Close (Some 0)] world0)) =
     [\<lparr>spawn_file = ''bazel'', spawn_args = [''build'', ''//app:main''],
       spawn_cwd = ''/srv/app''\<rparr>] \<and>
   fst (buildTargets client1 [''//app:main''] (Some record_chunk)
          [StdoutData ''ok'', StderrData ''INFO: done'', Close (Some 0)] world0) =
     Some (Inr (''ok'' @ [CHR 0x0A] @ ''INFO: done''))"
  using buildTargets_one_invocation [where c = client1 and T = "[''//app:main'']"
      and cb = "Some record_chunk" and events = "[StdoutData ''ok'', Close (Some 0)]"
      and w = world0 and cfg = "''/srv/ci.bazelrc''"
      and ds = "[StdoutData ''ok'', StderrData ''INFO: done'']" and rest = "[]"]
    buildTargets_one_invocation [where c = client0 and T = "[''//app:main'']"
      and cb = "Some record_chunk" and events = "[StdoutData ''ok'', Close (Some 0)]"
      and w = world0 and ds = "[]"]
  by (simp add: client0_def client1_def world0_def)

text \<open>
  C7. When the child of a query prints chunks and then closes with code 0,
  \<open>queryTarget\<close> returns the accumulated stdout if that is not empty and the
  accumulated stderr if it is; so the result is not empty as soon as one of the two
  streams is not. This holds for every pattern.
\<close>

theorem queryTarget_prefers_stdout:
  "list_all is_data ds \<longrightarrow>
     fst (queryTarget c p cb (ds @ Close (Some 0) # rest) w) =
       Some (Inr (if stdout_text ds = [] then stderr_text ds else stdout_text ds)) \<and>
     (stdout_text ds \<noteq> [] \<or> stderr_text ds \<noteq> [] \<longrightarrow>
        (\<exists>res. fst (queryTarget c p cb (ds @ Close (Some 0) # rest) w) = Some (Inr res) \<and>
               res \<noteq> []))"
  by (simp add: queryTarget_def await_resolved run_outcome or_else_def)

text \<open>C7 at two concrete queries: one answered on stdout, one on stderr alone.\<close>

theorem queryTarget_prefers_stdout_witness:
  "fst (queryTarget client0 ''deps(//app:main)'' None
          [StdoutData ''//app:main'', StderrData ''Loading'', Close (Some 0)] world0) =
     Some (Inr ''//app:main'') \<and>
   fst (queryTarget client0 ''deps(//app:main)'' None
          [StderrData ''//lib:core'', Close (Some 0)] world0) =
     Some (Inr ''//lib:core'')"
  using queryTarget_prefers_stdout [where ds = "[StdoutData ''//app:main'', StderrData ''Loading'']"
      and rest = "[]" and c = client0 and p = "''deps(//app:main)''" and cb = None and w = world0]
    queryTarget_prefers_stdout [where ds = "[StderrData ''//lib:core'']"
      and rest = "[]" and c = client0 and p = "''deps(//app:main)''" and cb = None and w = world0]
  by simp

text \<open>
  C5. A child that was started emits chunks and then \<open>close\<close>. If the exit code is
  not 0 (a number other than 0, or \<open>null\<close>), the call is rejected with the error whose
  message is \<open>Bazel command failed with code <code>: <stderr>\<close>, with the exit code
  and the whole accumulated stderr. The accumulated stdout is not part of it: any other
  run of chunks with the same stderr text and the same exit code is rejected with the
  same error, whatever it printed on stdout. If the exit code is 0, the call resolves
  with the whole accumulated stdout and stderr.
\<close>

theorem runBazelCommand_exit_code:
  "list_all is_data ds \<longrightarrow>
     (code \<noteq> Some 0 \<longrightarrow>
        fst (runBazelCommand c command args cb (ds @ Close code # rest) w) =
          Some (Inl (CommandFailed code (stderr_text ds))) \<and>
        message (CommandFailed code (stderr_text ds)) =
          ''Bazel command failed with code '' @ code_text code @ '': '' @ stderr_text ds \<and>
        (list_all is_data ds' \<and> stderr_text ds' = stderr_text ds \<longrightarrow>
           fst (runBazelCommand c command args cb (ds' @ Close code # rest') w) =
           fst (runBazelCommand c command args cb (ds @ Close code # rest) w))) \<and>
     (code = Some 0 \<longrightarrow>
        fst (runBazelCommand c command args cb (ds @ Close code # rest) w) =
          Some (Inr (stdout_text ds, stderr_text ds)))"
proof
  assume chunks_only: "list_all is_data ds"
  show "(code \<noteq> Some 0 \<longrightarrow>
        fst (runBazelCommand c command args cb (ds @ Close code # rest) w) =
          Some (Inl (CommandFailed code (stderr_text ds))) \<and>
        message (CommandFailed code (stderr_text ds)) =
          ''Bazel command failed with code '' @ code_text code @ '': '' @ stderr_text ds \<and>
        (list_all is_data ds' \<and> stderr_text ds' = stderr_text ds \<longrightarrow>
           fst (runBazelCommand c command args cb (ds' @ Close code # rest') w) =
           fst (runBazelCommand c command args cb (ds @ Close code # rest) w))) \<and>
     (code = Some 0 \<longrightarrow>
        fst (runBazelCommand c command args cb (ds @ Close code # rest) w) =
          Some (Inr (stdout_text ds, stderr_text ds)))"
  proof (cases "code = Some 0")
    case True
    with chunks_only show ?thesis by (simp add: run_outcome)
  next
    case False
    with chunks_only have rejected:
      "fst (runBazelCommand c command args cb (ds @ Close code # rest) w) =
         Some (Inl (CommandFailed code (stderr_text ds)))"
      by (simp add: run_outcome)
    have same: "fst (runBazelCommand c command args cb (ds' @ Close code # rest') w) =
         Some (Inl (CommandFailed code (stderr_text ds)))"
      if "list_all is_data ds'" and "stderr_text ds' = stderr_text ds"
      using that False by (simp add: run_outcome)
    from False rejected same show ?thesis by simp
  qed
qed

text \<open>
  C5 at the scenario of the specification: \<open>partial\<close> on stdout, \<open>boom\<close> on stderr,
  exit code 1; the same stderr with another stdout; and the same output with exit code 0.
\<close>

theorem runBazelCommand_exit_code_witness:
  "fst (runBazelCommand client0 ''build'' [''//app:main''] None
          [StdoutData ''partial'', StderrData ''boom'', Close (Some 1)] world0) =
     Some (Inl (CommandFailed (Some 1) ''boom'')) \<and>
   message (CommandFailed (Some 1) ''boom'') = ''Bazel command failed with code 1: boom'' \<and>
   fst (runBazelCommand client0 ''build'' [''//app:main''] None
          [StderrData ''bo'', StdoutData ''other'', StderrData ''om'', Close (Some 1)] world0) =
     Some (Inl (CommandFailed (Some 1) ''boom'')) \<and>
   fst (runBazelCommand client0 ''build'' [''//app:main''] None
          [StdoutData ''partial'', StderrData ''boom'', Close (Some 0)] world0) =
     Some (Inr (''partial'', ''boom''))"
  using runBazelCommand_exit_code [where ds = "[StdoutData ''partial'', StderrData ''boom'']"
      and code = "Some 1" and rest = "[]" and rest' = "[]"
      and ds' = "[StderrData ''bo'', StdoutData ''other'', StderrData ''om'']"
      and c = client0 and command = "''build''" and args = "[''//app:main'']" and cb = None
      and w = world0]
    runBazelCommand_exit_code [where ds = "[StdoutData ''partial'', StderrData ''boom'']"
      and code = "Some 0" and rest = "[]"
      and c = client0 and command = "''build''" and args = "[''//app:main'']" and cb = None
      and w = world0]
  by (simp add: code_text_def decimal.simps digit_char_def)

text \<open>
  C6, as the claim states it, fails: the callback is not told which stream a chunk came
  from. A chunk \<open>x\<close> on stdout and a chunk \<open>x\<close> on stderr reach the callback as the
  same single call with the text \<open>x\<close>.
\<close>

theorem onOutput_gets_no_stream_tag:
  "seen (snd (runBazelCommand client0 ''build'' [''//app:main''] (Some record_chunk)
                [StdoutData ''x'', Close (Some 0)] world0)) = [''x''] \<and>
   seen (snd (runBazelCommand client0 ''build'' [''//app:main''] (Some record_chunk)
                [StderrData ''x'', Close (Some 0)] world0)) = [''x'']"
  by (simp add: runBazelCommand_def Let_def forward_def settle_def record_chunk_def world0_def)

text \<open>
  C6, amended. With a callback supplied, the handler of each chunk appends the chunk to
  the accumulator of its stream and calls the callback with the text of the chunk, and
  with nothing else, before any later event is handled. Over a whole run the callback is
  called once for each chunk of either stream, in the order of arrival, and a run of
  chunks closed with code 0 resolves with the concatenation of the chunks of each stream.
\<close>

theorem runBazelCommand_forwards_chunks:
  "on_event (Some f) (StdoutData chunk) r =
     r\<lparr>stdout := stdout r @ chunk, obs := f chunk (obs r)\<rparr> \<and>
   on_event (Some f) (StderrData chunk) r =
     r\<lparr>stderr := stderr r @ chunk, obs := f chunk (obs r)\<rparr> \<and>
   seen (snd (runBazelCommand c command args (Some f) events w)) =
     calls f (chunks events) (seen w) \<and>
   (list_all is_data ds \<longrightarrow>
      fst (runBazelCommand c command args (Some f) (ds @ Close (Some 0) # rest) w) =
        Some (Inr (stdout_text ds, stderr_text ds)))"
  by (simp add: run_seen run_outcome forward_def)

text \<open>
  C6 at the scenario of the specification: the chunks \<open>a\<close>, \<open>b\<close>, \<open>c\<close> on stdout and
  nothing on stderr. The callback is called three times, in that order, and the
  accumulated stdout is \<open>abc\<close>.
\<close>

theorem runBazelCommand_forwards_chunks_witness:
  "seen (snd (runBazelCommand client0 ''build'' [''//app:main''] (Some record_chunk)
                [StdoutData ''a'', StdoutData ''b'', StdoutData ''c'', Close (Some 0)] world0)) =
     [''a'', ''b'', ''c''] \<and>
   fst (runBazelCommand client0 ''build'' [''//app:main''] (Some record_chunk)
          [StdoutData ''a'', StdoutData ''b'', StdoutData ''c'', Close (Some 0)] world0) =
     Some (Inr (''abc'', []))"
  using runBazelCommand_forwards_chunks [where f = record_chunk
      and ds = "[StdoutData ''a'', StdoutData ''b'', StdoutData ''c'']" and rest = "[]"
      and events = "[StdoutData ''a'', StdoutData ''b'', StdoutData ''c'', Close (Some 0)]"
      and c = client0 and command = "''build''" and args = "[''//app:main'']" and w = world0]
  by (simp add: record_chunk_def world0_def)

text \<open>
  C2, as the claim states it, fails for a call that carries no arguments: the handler
  throws \<open>No arguments provided\<close> before it looks at the name of the tool.
\<close>

theorem listed_name_without_arguments:
  "handler fs0 \<lparr>name = ''bazel_build_target'', arguments = None\<rparr>
     [StdoutData ''ok'', Close (Some 0)] client0 world0 =
     (Some (ErrorContent ''No arguments provided''), client0, world0)"
  by (simp add: handler_def throw_def)

text \<open>
  C2, amended. For every call that carries an arguments object and whose tool name is
  one of the six names of the tool list, the \<open>switch\<close> reaches its default case, and
  the handler resolves with the error text \<open>Unknown tool: <name>\<close>; the client is
  unchanged and no process is started, whatever the arguments and the file system are.
\<close>

theorem listed_names_are_unknown_tools:
  "tool \<in> set listed_tool_names \<longrightarrow>
     call_tool fs tool args events c w = throw (UnknownTool tool) c w \<and>
     handler fs \<lparr>name = tool, arguments = Some args\<rparr> events c w =
       (Some (ErrorContent (''Unknown tool: '' @ tool)), c, w)"
proof
  assume listed: "tool \<in> set listed_tool_names"
  then have no_case:
    "tool \<noteq> ''build_target''" "tool \<noteq> ''query_target''" "tool \<noteq> ''test_target''"
    "tool \<noteq> ''list_targets''" "tool \<noteq> ''fetch_dependencies''"
    "tool \<noteq> ''set_workspace_path''"
    by (auto simp: listed_tool_names_def)
  then have default: "call_tool fs tool args events c w = throw (UnknownTool tool) c w"
    by (simp add: call_tool_def)
  then have "handler fs \<lparr>name = tool, arguments = Some args\<rparr> events c w =
       (Some (ErrorContent (''Unknown tool: '' @ tool)), c, w)"
    by (simp add: handler_def throw_def)
  with default show
    "call_tool fs tool args events c w = throw (UnknownTool tool) c w \<and>
     handler fs \<lparr>name = tool, arguments = Some args\<rparr> events c w =
       (Some (ErrorContent (''Unknown tool: '' @ tool)), c, w)"
    by simp
qed

text \<open>C2 at a call of \<open>bazel_build_target\<close> with a target.\<close>

theorem listed_names_are_unknown_tools_witness:
  "handler fs0 \<lparr>name = ''bazel_build_target'',
                 arguments = Some \<lparr>targets = Some [''//app:main''], pattern = None,
                                    path = None, additionalArgs = None\<rparr>\<rparr>
     [StdoutData ''ok'', Close (Some 0)] client0 world0 =
     (Some (ErrorContent ''Unknown tool: bazel_build_target''), client0, world0)"
  using listed_names_are_unknown_tools [where tool = "''bazel_build_target''" and fs = fs0
      and args = "\<lparr>targets = Some [''//app:main''], pattern = None,
                                    path = None, additionalArgs = None\<rparr>"
      and events = "[StdoutData ''ok'', Close (Some 0)]" and c = client0 and w = world0]
  by (simp add: listed_tool_names_def)

text \<open>
  C4, as the claim states it, fails for a path that exists and is not a directory:
  \<open>fs.existsSync\<close> is true for a regular file, so the first check passes, and the
  error is the one of the second check, not \<open>does not exist\<close>.
\<close>

theorem regular_file_is_not_reported_missing:
  "\<not> isDirectory fs0 ''/srv/notes.txt'' \<and>
   setWorkspacePath fs0 client0 ''/srv/notes.txt'' = Inl (NotAWorkspace ''/srv/notes.txt'')"
  by (simp add: isDirectory_def setWorkspacePath_def isWorkspace_def existsSync_def fs0_def
      path_join_def normalize_def)

text \<open>
  C4, amended. \<open>setWorkspacePath(newPath)\<close> fails with \<open>Workspace path does not exist\<close>
  whenever nothing exists at \<open>newPath\<close> (\<open>fs.existsSync\<close> is false). Otherwise it fails
  with \<open>Path does not appear to be a Bazel workspace\<close> whenever none of \<open>WORKSPACE\<close>,
  \<open>WORKSPACE.bazel\<close> and \<open>MODULE.bazel\<close> exists under \<open>newPath\<close>. In either case a
  \<open>set_workspace_path\<close> call resolves with that error text, the client is unchanged and
  no process is started.
\<close>

theorem setWorkspacePath_failures:
  "(\<not> existsSync fs p \<longrightarrow>
      setWorkspacePath fs c p = Inl (PathDoesNotExist p) \<and>
      (p \<noteq> [] \<longrightarrow>
         handler fs \<lparr>name = ''set_workspace_path'', arguments = Some (args\<lparr>path := Some p\<rparr>)\<rparr>
           events c w =
         (Some (ErrorContent (''Workspace path does not exist: '' @ p)), c, w))) \<and>
   (existsSync fs p \<and> \<not> existsSync fs (path_join p ''WORKSPACE'') \<and>
    \<not> existsSync fs (path_join p ''WORKSPACE.bazel'') \<and>
    \<not> existsSync fs (path_join p ''MODULE.bazel'') \<longrightarrow>
      setWorkspacePath fs c p = Inl (NotAWorkspace p) \<and>
      (p \<noteq> [] \<longrightarrow>
         handler fs \<lparr>name = ''set_workspace_path'', arguments = Some (args\<lparr>path := Some p\<rparr>)\<rparr>
           events c w =
         (Some (ErrorContent (''Path does not appear to be a Bazel workspace: '' @ p)), c, w)))"
  by (simp add: setWorkspacePath_def isWorkspace_def handler_def call_tool_def throw_def)

text \<open>C4 at the two scenarios of the specification: a path that does not exist, and a
  directory that exists and holds none of the three markers.\<close>

theorem setWorkspacePath_failures_witness:
  "setWorkspacePath fs0 client0 ''/nonexistent'' = Inl (PathDoesNotExist ''/nonexistent'') \<and>
   handler fs0 \<lparr>name = ''set_workspace_path'',
                 arguments = Some \<lparr>targets = None, pattern = None,
                                    path = Some ''/nonexistent'', additionalArgs = None\<rparr>\<rparr>
     [] client0 world0 =
     (Some (ErrorContent ''Workspace path does not exist: /nonexistent''), client0, world0) \<and>
   setWorkspacePath fs0 client0 ''/srv/empty'' = Inl (NotAWorkspace ''/srv/empty'') \<and>
   handler fs0 \<lparr>name = ''set_workspace_path'',
                 arguments = Some \<lparr>targets = None, pattern = None,
                                    path = Some ''/srv/empty'', additionalArgs = None\<rparr>\<rparr>
     [] client0 world0 =
     (Some (ErrorContent ''Path does not appear to be a Bazel workspace: /srv/empty''),
      client0, world0)"
  using setWorkspacePath_failures [where fs = fs0 and p = "''/nonexistent''" and c = client0
      and args = "\<lparr>targets = None, pattern = None, path = None, additionalArgs = None\<rparr>"
      and events = "[]" and w = world0]
    setWorkspacePath_failures [where fs = fs0 and p = "''/srv/empty''" and c = client0
      and args = "\<lparr>targets = None, pattern = None, path = None, additionalArgs = None\<rparr>"
      and events = "[]" and w = world0]
  by (simp add: existsSync_def fs0_def path_join_def normalize_def)

text \<open>
  C10. For every path \<open>p\<close> that is an existing directory with at least one of the
  three markers under it, \<open>setWorkspacePath(p)\<close> succeeds, and called again on the
  resulting client (the file system being the same) it succeeds again and leaves that
  client as it is: \<open>workspacePath\<close> is \<open>p\<close> and the other fields are those of the
  client before the first call.
\<close>

theorem setWorkspacePath_twice:
  "isDirectory fs p \<and>
   (existsSync fs (path_join p ''WORKSPACE'') \<or> existsSync fs (path_join p ''WORKSPACE.bazel'') \<or>
    existsSync fs (path_join p ''MODULE.bazel'')) \<longrightarrow>
     setWorkspacePath fs c p =
       Inr (''Workspace path updated from '' @ workspacePath c @ '' to '' @ p,
            c\<lparr>workspacePath := p\<rparr>) \<and>
     setWorkspacePath fs (c\<lparr>workspacePath := p\<rparr>) p =
       Inr (''Workspace path updated from '' @ p @ '' to '' @ p, c\<lparr>workspacePath := p\<rparr>)"
proof
  assume valid: "isDirectory fs p \<and>
   (existsSync fs (path_join p ''WORKSPACE'') \<or> existsSync fs (path_join p ''WORKSPACE.bazel'') \<or>
    existsSync fs (path_join p ''MODULE.bazel''))"
  then have found: "existsSync fs p"
    by (simp add: isDirectory_def existsSync_def)
  from valid have marked: "isWorkspace fs p"
    by (simp add: isWorkspace_def)
  have switch: "setWorkspacePath fs d p =
       Inr (''Workspace path updated from '' @ workspacePath d @ '' to '' @ p,
            d\<lparr>workspacePath := p\<rparr>)" for d
    using found marked by (simp add: setWorkspacePath_def)
  show "setWorkspacePath fs c p =
       Inr (''Workspace path updated from '' @ workspacePath c @ '' to '' @ p,
            c\<lparr>workspacePath := p\<rparr>) \<and>
     setWorkspacePath fs (c\<lparr>workspacePath := p\<rparr>) p =
       Inr (''Workspace path updated from '' @ p @ '' to '' @ p, c\<lparr>workspacePath := p\<rparr>)"
    using switch [of c] switch [of "c\<lparr>workspacePath := p\<rparr>"] by simp
qed

text \<open>C10 at a directory that holds \<open>MODULE.bazel\<close>, starting from another workspace.\<close>

theorem setWorkspacePath_twice_witness:
  "setWorkspacePath fs0 (client1\<lparr>workspacePath := ''/tmp''\<rparr>) ''/srv/app'' =
     Inr (''Workspace path updated from /tmp to /srv/app'', client1) \<and>
   setWorkspacePath fs0 client1 ''/srv/app'' =
     Inr (''Workspace path updated from /srv/app to /srv/app'', client1)"
  using setWorkspacePath_twice [where fs = fs0 and p = "''/srv/app''"
      and c = "client1\<lparr>workspacePath := ''/tmp''\<rparr>"]
  by (simp add: isDirectory_def existsSync_def fs0_def path_join_def normalize_def client1_def)

text \<open>
  What \<open>fetchDependencies\<close> does for every list of targets: one process, the
  subcommand \<open>build\<close>, and after it the word \<open>fetch\<close> and then the targets, or
  \<open>//...\<close> when the list is empty or absent.
\<close>

lemma fetchDependencies_args:
  "spawned (snd (fetchDependencies c ts cb events w)) =
     spawned w @
     [\<lparr>spawn_file = bazelPath c,
       spawn_args = fullArgs c ''build''
         (''fetch'' # (case ts of None \<Rightarrow> [''//...'']
                       | Some T \<Rightarrow> if T = [] then [''//...''] else T)),
       spawn_cwd = workspacePath c\<rparr>]"
  by (simp add: fetchDependencies_def await_snd run_spawned split: option.split)

text \<open>
  C1. The code does not do what the claim says. \<open>fetchDependencies\<close> puts the word
  \<open>fetch\<close> in front of the targets and runs the subcommand \<open>build\<close> on that list, so
  the argument vector is \<open>build fetch //x\<close> for the targets \<open>//x\<close>, and
  \<open>build fetch //...\<close> for an empty or absent list: \<open>fetch\<close> stands where a target
  is expected.
\<close>

theorem fetchDependencies_passes_fetch_as_target:
  "spawned (snd (fetchDependencies client0 (Some [''//x'']) None [Close (Some 0)] world0)) =
     [\<lparr>spawn_file = ''bazel'', spawn_args = [''build'', ''fetch'', ''//x''],
       spawn_cwd = ''/srv/app''\<rparr>] \<and>
   spawned (snd (fetchDependencies client0 (Some []) None [Close (Some 0)] world0)) =
     [\<lparr>spawn_file = ''bazel'', spawn_args = [''build'', ''fetch'', ''//...''],
       spawn_cwd = ''/srv/app''\<rparr>] \<and>
   spawned (snd (fetchDependencies client0 None None [Close (Some 0)] world0)) =
     [\<lparr>spawn_file = ''bazel'', spawn_args = [''build'', ''fetch'', ''//...''],
       spawn_cwd = ''/srv/app''\<rparr>]"
  by (simp add: fetchDependencies_def await_snd run_spawned fullArgs_def client0_def world0_def)

text \<open>
  The handler never reads \<open>additionalArgs\<close>: what it does is the same whatever that
  member holds.
\<close>

lemma handler_ignores_additionalArgs:
  "handler fs \<lparr>name = tool, arguments = Some (args\<lparr>additionalArgs := extra\<rparr>)\<rparr> events c w =
   handler fs \<lparr>name = tool, arguments = Some args\<rparr> events c w"
  by (simp add: handler_def call_tool_def)

text \<open>
  C3. The code does not do what the claim says. The handler reads \<open>targets\<close>,
  \<open>pattern\<close> or \<open>path\<close> and nothing else: a \<open>build_target\<close> call that carries
  \<open>additionalArgs\<close> runs \<open>build\<close> on the targets alone.
\<close>

theorem build_target_drops_additionalArgs:
  "handler fs0 \<lparr>name = ''build_target'',
                 arguments = Some \<lparr>targets = Some [''//app:main''], pattern = None,
                                    path = None,
                                    additionalArgs = Some [''--verbose_failures'']\<rparr>\<rparr>
     [StdoutData ''ok'', Close (Some 0)] client0 world0 =
     (Some (Content (''ok'' @ [CHR 0x0A])), client0,
      \<lparr>spawned = [\<lparr>spawn_file = ''bazel'', spawn_args = [''build'', ''//app:main''],
                    spawn_cwd = ''/srv/app''\<rparr>],
        seen = []\<rparr>)"
  by (simp add: handler_def call_tool_def awaited_def buildTargets_def await_def
      runBazelCommand_def Let_def fullArgs_def settle_def forward_def joined_def
      client0_def world0_def)

text \<open>
  What \<open>listTargets\<close> does for every path: one process, the subcommand \<open>query\<close> with
  the single pattern \<open>path + "/..."\<close>, and on exit code 0 the accumulated stdout alone.
\<close>

lemma listTargets_pattern:
  "spawned (snd (listTargets c p cb events w)) =
     spawned w @ [\<lparr>spawn_file = bazelPath c, spawn_args = fullArgs c ''query'' [p @ ''/...''],
                   spawn_cwd = workspacePath c\<rparr>] \<and>
   (list_all is_data ds \<longrightarrow>
      fst (listTargets c p cb (ds @ Close (Some 0) # rest) w) = Some (Inr (stdout_text ds)))"
  by (simp add: listTargets_def await_snd run_spawned await_resolved run_outcome)

text \<open>
  C9. The code does not do what the claim says at the path \<open>//\<close>, the one that the
  description of the tool gives for all targets: the pattern is \<open>///...\<close>, with a
  third slash, and not \<open>//...\<close>.
\<close>

theorem listTargets_root_pattern:
  "spawned (snd (listTargets client0 ''//'' None [StdoutData ''//app:main'', Close (Some 0)]
                   world0)) =
     [\<lparr>spawn_file = ''bazel'', spawn_args = [''query'', ''///...''],
       spawn_cwd = ''/srv/app''\<rparr>]"
  by (simp add: listTargets_def await_snd run_spawned fullArgs_def client0_def world0_def)

end
